theory Spec2Isabelle
  imports Main
begin

section \<open>Data model of proxy\_toggle\_pro.py\<close>

text \<open>
  A proxy profile is one of the dictionaries of \<^verbatim>\<open>self.proxies\<close>, restricted to the
  three keys the program reads and writes: \<^verbatim>\<open>name\<close>, \<^verbatim>\<open>server\<close> and \<^verbatim>\<open>enabled\<close>.
  Python strings are compared for equality and tested for emptiness only, so they are
  modelled as \<^typ>\<open>string\<close>.
\<close>

record profile =
  name :: string
  server :: string
  enabled :: bool

text \<open>
  The two values under the registry key \<^verbatim>\<open>Internet Settings\<close> that the program
  touches. \<^verbatim>\<open>ProxyEnable\<close> is a \<^verbatim>\<open>REG_DWORD\<close>, \<^verbatim>\<open>ProxyServer\<close> a \<^verbatim>\<open>REG_SZ\<close>;
  \<open>None\<close> stands for a value that is absent, on which \<^verbatim>\<open>QueryValueEx\<close> raises.
\<close>

record internet_settings =
  ProxyEnable :: "nat option"
  ProxyServer :: "string option"

text \<open>
  What \<^verbatim>\<open>json.load\<close> can return and \<^verbatim>\<open>json.dump\<close> can take (floating-point numbers
  left out). A file on disk is abstracted by what \<^verbatim>\<open>json.load\<close> does with its text:
  it either parses to a value or raises. \<^verbatim>\<open>json.dump v\<close>, when it completes, leaves a
  text that parses to \<open>v\<close> again; white space and indentation are not represented.
\<close>

datatype json =
    JNull
  | JBool bool
  | JInt int
  | JStr string
  | JArr "json list"
  | JObj "(string \<times> json) list"

datatype file_content = JsonText json | BadText

text \<open>The lines the program prints from its \<^verbatim>\<open>except\<close> blocks.\<close>

datatype diag =
    ErrorLoadingConfig
  | ErrorSavingConfig
  | ErrorReadingProxy
  | ErrorSettingProxy

datatype py_error = IndexError

text \<open>
  Where an operating-system call inside \<^verbatim>\<open>set_proxy\<close> raises, if anywhere: opening
  the key, the first \<^verbatim>\<open>SetValueEx\<close>, the second one, or the \<^verbatim>\<open>InternetSetOptionW\<close>
  notification after both values are stored.
\<close>

datatype write_fault = WriteOk | OpenKeyFails | SetEnableFails | SetServerFails | NotifyFails

text \<open>
  Where \<^verbatim>\<open>save_proxies\<close> raises, if anywhere: \<^verbatim>\<open>open(CONFIG_FILE, 'w')\<close> itself (the
  file is left as it was), or the write after the file has been truncated (an incomplete
  text is left behind, which does not parse).
\<close>

datatype save_fault = SaveOk | SaveOpenFails | SaveDumpFails

text \<open>
  The state the widget works on: its own list \<^verbatim>\<open>self.proxies\<close>, the registry, the
  configuration file (\<open>None\<close> when it does not exist) and everything printed so far.
  \<open>set_proxy_calls\<close> is a history of the arguments \<^verbatim>\<open>set_proxy\<close> was called with,
  oldest first; the program does not read it. The \<^verbatim>\<open>ModernToggle\<close> canvases only
  mirror the \<^verbatim>\<open>enabled\<close> flags on screen and are not modelled.
\<close>

record world =
  proxies :: "profile list"
  registry :: internet_settings
  config_file :: "file_content option"
  diagnostics :: "diag list"
  set_proxy_calls :: "string option list"

section \<open>ProxyConfig\<close>

definition DEFAULT_PROXIES :: "profile list" where
  "DEFAULT_PROXIES =
     [\<lparr>name = ''Office Proxy'', server = ''http://proxy-example.corp.com:912'', enabled = False\<rparr>,
      \<lparr>name = ''VPN Proxy'', server = ''http://vpn-proxy.example.com:8080'', enabled = False\<rparr>]"

text \<open>The dictionary of a profile, with its keys in the order the program writes them.\<close>

definition profile_json :: "profile \<Rightarrow> json" where
  "profile_json p =
     JObj [(''name'', JStr (name p)), (''server'', JStr (server p)), (''enabled'', JBool (enabled p))]"

definition profiles_json :: "profile list \<Rightarrow> json" where
  "profiles_json ps = JArr (map profile_json ps)"

text \<open>
  \<^verbatim>\<open>save_proxies\<close>: overwrite the file with the dump of the list; any exception is
  printed and swallowed. Returns the new file and what was printed.
\<close>

fun save_proxies :: "save_fault \<Rightarrow> json \<Rightarrow> file_content option \<Rightarrow> file_content option \<times> diag list" where
  "save_proxies SaveOk v f = (Some (JsonText v), [])"
| "save_proxies SaveOpenFails v f = (f, [ErrorSavingConfig])"
| "save_proxies SaveDumpFails v f = (Some BadText, [ErrorSavingConfig])"

text \<open>
  \<^verbatim>\<open>load_proxies\<close>: \<open>readable\<close> is false when \<^verbatim>\<open>open(CONFIG_FILE, 'r')\<close> or the read
  raises; \<open>sf\<close> is the fault of the \<^verbatim>\<open>save_proxies\<close> call made when the file does not
  exist. Returns the loaded value, the file afterwards and what was printed. The program
  calls it once, from \<^verbatim>\<open>__init__\<close>, when \<^verbatim>\<open>DEFAULT_PROXIES\<close> still has its initial value.
\<close>

fun load_proxies :: "bool \<Rightarrow> save_fault \<Rightarrow> file_content option \<Rightarrow> json \<times> file_content option \<times> diag list" where
  "load_proxies readable sf (Some c) =
     (if readable then
        (case c of
           JsonText v \<Rightarrow> (v, Some c, [])
         | BadText \<Rightarrow> (profiles_json DEFAULT_PROXIES, Some c, [ErrorLoadingConfig]))
      else (profiles_json DEFAULT_PROXIES, Some c, [ErrorLoadingConfig]))"
| "load_proxies readable sf None =
     (case save_proxies sf (profiles_json DEFAULT_PROXIES) None of
        (f, out) \<Rightarrow> (profiles_json DEFAULT_PROXIES, f, out))"

section \<open>ProxyManager\<close>

text \<open>Python's truth value of a \<^verbatim>\<open>str\<close> or \<^verbatim>\<open>None\<close>: only a non-empty string is true.\<close>

fun truthy :: "string option \<Rightarrow> bool" where
  "truthy None = False"
| "truthy (Some s) = (s \<noteq> [])"

text \<open>
  \<^verbatim>\<open>get_current_proxy\<close>: \<open>readable\<close> is false when \<^verbatim>\<open>OpenKey\<close> raises. Every exception
  ends in the \<^verbatim>\<open>except\<close> block, which prints and returns \<^verbatim>\<open>None\<close>.
\<close>

definition get_current_proxy :: "bool \<Rightarrow> internet_settings \<Rightarrow> string option \<times> diag list" where
  "get_current_proxy readable reg =
     (if \<not> readable then (None, [ErrorReadingProxy])
      else
        (case ProxyEnable reg of
           None \<Rightarrow> (None, [ErrorReadingProxy])
         | Some proxy_enable \<Rightarrow>
             if proxy_enable \<noteq> 0 then
               (case ProxyServer reg of
                  None \<Rightarrow> (None, [ErrorReadingProxy])
                | Some proxy_server \<Rightarrow> (Some proxy_server, []))
             else (None, [])))"

text \<open>
  \<^verbatim>\<open>set_proxy\<close>: returns the boolean of the source, the registry afterwards and what
  was printed. The two values are stored one after the other, so a fault between them
  leaves the first one written.
\<close>

definition set_proxy :: "write_fault \<Rightarrow> string option \<Rightarrow> internet_settings \<Rightarrow> bool \<times> internet_settings \<times> diag list" where
  "set_proxy fault proxy_server reg =
     (let e = (if truthy proxy_server then 1 else 0);
          s = (if truthy proxy_server then the proxy_server else [])
      in case fault of
           OpenKeyFails \<Rightarrow> (False, reg, [ErrorSettingProxy])
         | SetEnableFails \<Rightarrow> (False, reg, [ErrorSettingProxy])
         | SetServerFails \<Rightarrow> (False, reg\<lparr>ProxyEnable := Some e\<rparr>, [ErrorSettingProxy])
         | NotifyFails \<Rightarrow>
             (False, reg\<lparr>ProxyEnable := Some e, ProxyServer := Some s\<rparr>, [ErrorSettingProxy])
         | WriteOk \<Rightarrow> (True, reg\<lparr>ProxyEnable := Some e, ProxyServer := Some s\<rparr>, []))"

section \<open>ProxyToggleWidget\<close>

text \<open>
  The body of the loop of \<^verbatim>\<open>update_ui\<close>:
  \<^verbatim>\<open>is_active = (current_proxy == proxy['server']) if current_proxy else False\<close>.
\<close>

definition is_active :: "string option \<Rightarrow> profile \<Rightarrow> bool" where
  "is_active current_proxy proxy =
     (if truthy current_proxy then current_proxy = Some (server proxy) else False)"

primrec reconcile :: "string option \<Rightarrow> profile list \<Rightarrow> profile list" where
  "reconcile current_proxy [] = []"
| "reconcile current_proxy (proxy # rest) =
     proxy\<lparr>enabled := is_active current_proxy proxy\<rparr> # reconcile current_proxy rest"

definition update_ui :: "bool \<Rightarrow> world \<Rightarrow> world" where
  "update_ui readable w =
     (case get_current_proxy readable (registry w) of
        (current_proxy, out) \<Rightarrow>
          w\<lparr>proxies := reconcile current_proxy (proxies w),
            diagnostics := diagnostics w @ out\<rparr>)"

text \<open>
  The first loop of \<^verbatim>\<open>toggle_proxy\<close>, \<^verbatim>\<open>for i in range(len(self.proxies))\<close>, with the
  loop counter \<open>i\<close> written out.
\<close>

fun turn_off_others :: "nat \<Rightarrow> nat \<Rightarrow> profile list \<Rightarrow> profile list" where
  "turn_off_others index i [] = []"
| "turn_off_others index i (proxy # rest) =
     (if i \<noteq> index then proxy\<lparr>enabled := False\<rparr> else proxy) # turn_off_others index (Suc i) rest"

text \<open>The list after the first loop and the flip of \<^verbatim>\<open>self.proxies[index]['enabled']\<close>.\<close>

definition toggled :: "nat \<Rightarrow> profile list \<Rightarrow> profile list" where
  "toggled index ps =
     (let ps1 = turn_off_others index 0 ps
      in ps1[index := (ps1 ! index)\<lparr>enabled := \<not> enabled (ps1 ! index)\<rparr>])"

text \<open>
  The argument of the \<^verbatim>\<open>set_proxy\<close> call of \<^verbatim>\<open>toggle_proxy\<close>, chosen by
  \<^verbatim>\<open>if self.proxies[index]['enabled']\<close> after the flip.
\<close>

definition proxy_argument :: "nat \<Rightarrow> profile list \<Rightarrow> string option" where
  "proxy_argument index ps = (if enabled (ps ! index) then Some (server (ps ! index)) else None)"

text \<open>
  \<^verbatim>\<open>toggle_proxy\<close>. The index comes from \<^verbatim>\<open>enumerate\<close> and is never negative; past the
  end of the list, \<^verbatim>\<open>self.proxies[index]\<close> raises (the flags the first loop has cleared
  by then are not carried in the error value). The value \<^verbatim>\<open>set_proxy\<close> returns is
  dropped, as it is in the source. \<open>fault\<close>, \<open>sf\<close> and \<open>readable\<close> are the faults of the
  three outside calls the function makes, in the order it makes them.
\<close>

definition toggle_proxy :: "write_fault \<Rightarrow> save_fault \<Rightarrow> bool \<Rightarrow> nat \<Rightarrow> world \<Rightarrow> py_error + world" where
  "toggle_proxy fault sf readable index w =
     (if \<not> index < length (proxies w) then Inl IndexError
      else
        let ps = toggled index (proxies w)
        in case set_proxy fault (proxy_argument index ps) (registry w) of
             (ok, reg, out1) \<Rightarrow>
               (case save_proxies sf (profiles_json ps) (config_file w) of
                  (f, out2) \<Rightarrow>
                    Inr (update_ui readable
                          (w\<lparr>proxies := ps, registry := reg, config_file := f,
                             diagnostics := diagnostics w @ out1 @ out2,
                             set_proxy_calls := set_proxy_calls w @ [proxy_argument index ps]\<rparr>))))"

section \<open>Sequences of user actions\<close>

text \<open>
  The two entry points that change \<^verbatim>\<open>self.proxies\<close>, each with the faults of the
  outside calls it makes: a click on the toggle of a profile, and \<^verbatim>\<open>update_ui\<close>. The
  source has no separate operation that switches the proxy off; that is done by a click
  on the profile that is on.
\<close>

datatype action = Toggle write_fault save_fault bool nat | Refresh bool

fun perform :: "action \<Rightarrow> world \<Rightarrow> py_error + world" where
  "perform (Toggle fault sf readable index) w = toggle_proxy fault sf readable index w"
| "perform (Refresh readable) w = Inr (update_ui readable w)"

text \<open>Actions one after the other; the first exception ends the run.\<close>

fun run :: "action list \<Rightarrow> world \<Rightarrow> py_error + world" where
  "run [] w = Inr w"
| "run (a # rest) w = (case perform a w of Inl e \<Rightarrow> Inl e | Inr w' \<Rightarrow> run rest w')"

section \<open>Example states\<close>

text \<open>The default profiles, all off, on a machine with no proxy set and no file yet.\<close>

definition idle_world :: world where
  "idle_world =
     \<lparr>proxies = DEFAULT_PROXIES,
      registry = \<lparr>ProxyEnable = Some 0, ProxyServer = Some []\<rparr>,
      config_file = None, diagnostics = [], set_proxy_calls = []\<rparr>"

text \<open>The default profiles with the first one on, as the registry says.\<close>

definition office_world :: world where
  "office_world =
     \<lparr>proxies =
        [\<lparr>name = ''Office Proxy'', server = ''http://proxy-example.corp.com:912'', enabled = True\<rparr>,
         \<lparr>name = ''VPN Proxy'', server = ''http://vpn-proxy.example.com:8080'', enabled = False\<rparr>],
      registry = \<lparr>ProxyEnable = Some 1, ProxyServer = Some ''http://proxy-example.corp.com:912''\<rparr>,
      config_file = None, diagnostics = [], set_proxy_calls = []\<rparr>"

text \<open>The default profiles on a machine whose proxy was set by somebody else.\<close>

definition foreign_world :: world where
  "foreign_world =
     \<lparr>proxies = DEFAULT_PROXIES,
      registry = \<lparr>ProxyEnable = Some 1, ProxyServer = Some ''http://other.example.com:3128''\<rparr>,
      config_file = None, diagnostics = [], set_proxy_calls = []\<rparr>"

text \<open>A hand-edited list with an empty server, and a registry that is on with no server.\<close>

definition blank_world :: world where
  "blank_world =
     \<lparr>proxies = [\<lparr>name = ''Blank'', server = [], enabled = False\<rparr>],
      registry = \<lparr>ProxyEnable = Some 1, ProxyServer = Some []\<rparr>,
      config_file = None, diagnostics = [], set_proxy_calls = []\<rparr>"

text \<open>A hand-edited list in which two profiles name the same server.\<close>

definition twin_world :: world where
  "twin_world =
     \<lparr>proxies =
        [\<lparr>name = ''Desk'', server = ''http://proxy.example.com:8080'', enabled = False\<rparr>,
         \<lparr>name = ''Lab'', server = ''http://proxy.example.com:8080'', enabled = False\<rparr>],
      registry = \<lparr>ProxyEnable = Some 1, ProxyServer = Some ''http://proxy.example.com:8080''\<rparr>,
      config_file = None, diagnostics = [], set_proxy_calls = []\<rparr>"

text \<open>
  A hand-edited file that is good JSON and no list of profiles: its one entry has no
  \<^verbatim>\<open>server\<close>.
\<close>

definition serverless_doc :: json where
  "serverless_doc = JArr [JObj [(''name'', JStr ''Office Proxy''), (''enabled'', JBool False)]]"

section \<open>Reconciliation with the system state\<close>

lemma reconcile_map:
  "reconcile cur ps = map (\<lambda>p. p\<lparr>enabled := is_active cur p\<rparr>) ps"
  by (induction ps) simp_all

lemma length_reconcile [simp]: "length (reconcile cur ps) = length ps"
  by (simp add: reconcile_map)

lemma server_reconcile [simp]: "map server (reconcile cur ps) = map server ps"
  by (simp add: reconcile_map)

lemma name_reconcile [simp]: "map name (reconcile cur ps) = map name ps"
  by (simp add: reconcile_map)

lemma enabled_reconcile: "map enabled (reconcile cur ps) = map (is_active cur) ps"
  by (simp add: reconcile_map)

lemma is_active_None [simp]: "is_active None p = False"
  by (simp add: is_active_def)

lemma is_active_empty [simp]: "is_active (Some []) p = False"
  by (simp add: is_active_def)

lemma reconcile_idem [simp]: "reconcile cur (reconcile cur ps) = reconcile cur ps"
  by (simp add: reconcile_map is_active_def)

lemma reconcile_falsy: "\<not> truthy cur \<Longrightarrow> reconcile cur ps = reconcile None ps"
  by (induction ps) (simp_all add: is_active_def)

lemma enabled_reconcile_falsy:
  "\<not> truthy cur \<Longrightarrow> map enabled (reconcile cur ps) = replicate (length ps) False"
  by (induction ps) (simp_all add: is_active_def)

text \<open>What \<^verbatim>\<open>is_active\<close> comes to, read off the registry.\<close>

lemma is_active_registry:
  "is_active (fst (get_current_proxy readable reg)) p =
     (readable \<and> ProxyEnable reg \<noteq> None \<and> ProxyEnable reg \<noteq> Some 0 \<and>
      ProxyServer reg = Some (server p) \<and> server p \<noteq> [])"
  by (auto simp add: is_active_def get_current_proxy_def split: option.splits)

lemma proxies_update_ui:
  "proxies (update_ui readable w) =
     reconcile (fst (get_current_proxy readable (registry w))) (proxies w)"
  by (simp add: update_ui_def split: prod.splits)

lemma registry_update_ui [simp]: "registry (update_ui readable w) = registry w"
  by (simp add: update_ui_def split: prod.splits)

lemma config_file_update_ui [simp]: "config_file (update_ui readable w) = config_file w"
  by (simp add: update_ui_def split: prod.splits)

lemma set_proxy_calls_update_ui [simp]:
  "set_proxy_calls (update_ui readable w) = set_proxy_calls w"
  by (simp add: update_ui_def split: prod.splits)

lemma diagnostics_update_ui:
  "diagnostics (update_ui readable w) =
     diagnostics w @ snd (get_current_proxy readable (registry w))"
  by (simp add: update_ui_def split: prod.splits)

text \<open>
  Claim C4, as amended. \<^verbatim>\<open>update_ui\<close> turns the flag of a profile on exactly when the
  registry can be read, \<^verbatim>\<open>ProxyEnable\<close> is present and not zero, and \<^verbatim>\<open>ProxyServer\<close> is
  a non-empty string equal to the server of the profile; names and servers are left as
  they are. In particular, when the server string of the registry is the server of no
  profile, every flag ends off.
\<close>

theorem update_ui_enabled_iff:
  "map enabled (proxies (update_ui readable w)) =
     map (\<lambda>p. readable \<and> ProxyEnable (registry w) \<noteq> None \<and> ProxyEnable (registry w) \<noteq> Some 0 \<and>
               ProxyServer (registry w) = Some (server p) \<and> server p \<noteq> []) (proxies w)
   \<and> map server (proxies (update_ui readable w)) = map server (proxies w)
   \<and> map name (proxies (update_ui readable w)) = map name (proxies w)
   \<and> ((\<forall>p \<in> set (proxies w). ProxyServer (registry w) \<noteq> Some (server p)) \<longrightarrow>
        map enabled (proxies (update_ui readable w)) = replicate (length (proxies w)) False)"
proof -
  have e: "map enabled (proxies (update_ui readable w)) =
     map (\<lambda>p. readable \<and> ProxyEnable (registry w) \<noteq> None \<and> ProxyEnable (registry w) \<noteq> Some 0 \<and>
               ProxyServer (registry w) = Some (server p) \<and> server p \<noteq> []) (proxies w)"
    by (simp add: proxies_update_ui enabled_reconcile is_active_registry)
  have s: "map server (proxies (update_ui readable w)) = map server (proxies w)"
    by (simp add: proxies_update_ui)
  have n: "map name (proxies (update_ui readable w)) = map name (proxies w)"
    by (simp add: proxies_update_ui)
  have f: "map enabled (proxies (update_ui readable w)) = replicate (length (proxies w)) False"
    if "\<forall>p \<in> set (proxies w). ProxyServer (registry w) \<noteq> Some (server p)"
    using that unfolding e by (simp add: map_replicate_const [symmetric])
  from e s n f show ?thesis by blast
qed

text \<open>The registry names a server that is none of the two default profiles'.\<close>

theorem update_ui_enabled_iff_witness:
  "map server (proxies foreign_world) =
     [''http://proxy-example.corp.com:912'', ''http://vpn-proxy.example.com:8080''] \<and>
   ProxyServer (registry foreign_world) = Some ''http://other.example.com:3128'' \<and>
   map enabled (proxies (update_ui True foreign_world)) = [False, False]"
proof -
  have h: "\<forall>p \<in> set (proxies foreign_world). ProxyServer (registry foreign_world) \<noteq> Some (server p)"
    by (simp add: foreign_world_def DEFAULT_PROXIES_def)
  have l: "length (proxies foreign_world) = 2"
    by (simp add: foreign_world_def DEFAULT_PROXIES_def)
  from update_ui_enabled_iff [of True foreign_world] h
  have "map enabled (proxies (update_ui True foreign_world)) =
          replicate (length (proxies foreign_world)) False"
    by blast
  with l have "map enabled (proxies (update_ui True foreign_world)) = [False, False]"
    by (simp add: numeral_2_eq_2)
  then show ?thesis by (simp add: foreign_world_def DEFAULT_PROXIES_def)
qed

text \<open>
  Claim C4 as the specification states it fails: the registry says that proxying is on
  and its server string equals the server of the profile, both being empty, and
  \<^verbatim>\<open>update_ui\<close> leaves the profile off.
\<close>

theorem update_ui_empty_server_counterexample:
  "ProxyEnable (registry blank_world) = Some 1 \<and>
   ProxyServer (registry blank_world) = Some (server (hd (proxies blank_world))) \<and>
   map enabled (proxies (update_ui True blank_world)) = [False]"
  by (simp add: blank_world_def update_ui_def get_current_proxy_def is_active_def)

text \<open>
  Claim C7. Two calls of \<^verbatim>\<open>update_ui\<close> in a row, against the same registry, leave the
  list of profiles that the first call left.
\<close>

theorem update_ui_idempotent:
  "proxies (update_ui readable (update_ui readable w)) = proxies (update_ui readable w)"
  by (simp add: proxies_update_ui)

text \<open>
  Claim C8. \<^verbatim>\<open>update_ui\<close> leaves the registry and the configuration file as they
  were and calls \<^verbatim>\<open>set_proxy\<close> not once; when the registry cannot be read it returns all
  the same, with every flag off, which is the list it returns when proxying is off.
\<close>

theorem update_ui_read_only:
  "registry (update_ui readable w) = registry w \<and>
   config_file (update_ui readable w) = config_file w \<and>
   set_proxy_calls (update_ui readable w) = set_proxy_calls w \<and>
   map enabled (proxies (update_ui False w)) = replicate (length (proxies w)) False \<and>
   proxies (update_ui False w) =
     proxies (update_ui True (w\<lparr>registry := \<lparr>ProxyEnable = Some 0, ProxyServer = Some []\<rparr>\<rparr>))"
  by (simp add: proxies_update_ui enabled_reconcile_falsy get_current_proxy_def)

text \<open>
  Claim C10. When the registry says that proxying is on and the server string is empty,
  \<^verbatim>\<open>update_ui\<close> turns every flag off, that of a profile whose server is the empty string
  too: the list is the one it computes when proxying is off.
\<close>

theorem update_ui_empty_system_server:
  assumes "ProxyEnable (registry w) = Some e" and "e \<noteq> 0" and "ProxyServer (registry w) = Some []"
  shows "map enabled (proxies (update_ui True w)) = replicate (length (proxies w)) False \<and>
         proxies (update_ui True w) =
           proxies (update_ui True (w\<lparr>registry := (registry w)\<lparr>ProxyEnable := Some 0\<rparr>\<rparr>))"
proof -
  from assms have cur: "fst (get_current_proxy True (registry w)) = Some []"
    by (simp add: get_current_proxy_def)
  have "map enabled (proxies (update_ui True w)) = replicate (length (proxies w)) False"
    by (simp add: proxies_update_ui cur enabled_reconcile_falsy)
  moreover have "proxies (update_ui True w) =
      proxies (update_ui True (w\<lparr>registry := (registry w)\<lparr>ProxyEnable := Some 0\<rparr>\<rparr>))"
  proof -
    have "fst (get_current_proxy True ((registry w)\<lparr>ProxyEnable := Some 0\<rparr>)) = None"
      by (simp add: get_current_proxy_def)
    then show ?thesis
      by (simp add: proxies_update_ui cur reconcile_falsy [of "Some []"])
  qed
  ultimately show ?thesis by simp
qed

theorem update_ui_empty_system_server_witness:
  "ProxyEnable (registry blank_world) = Some 1 \<and> (1::nat) \<noteq> 0 \<and>
   ProxyServer (registry blank_world) = Some [] \<and>
   server (hd (proxies blank_world)) = [] \<and>
   map enabled (proxies (update_ui True blank_world)) = [False]"
proof -
  have a: "ProxyEnable (registry blank_world) = Some 1" by (simp add: blank_world_def)
  have b: "(1::nat) \<noteq> 0" by simp
  have c: "ProxyServer (registry blank_world) = Some []" by (simp add: blank_world_def)
  have d: "length (proxies blank_world) = 1" by (simp add: blank_world_def)
  from update_ui_empty_system_server [OF a b c, THEN conjunct1] d
  have "map enabled (proxies (update_ui True blank_world)) = [False]" by simp
  with a b c show ?thesis by (simp add: blank_world_def)
qed


section \<open>The click on a toggle\<close>

subsection \<open>The first loop and the flip\<close>

lemma length_turn_off_others [simp]: "length (turn_off_others index i ps) = length ps"
  by (induction ps arbitrary: i) simp_all

lemma server_turn_off_others [simp]: "map server (turn_off_others index i ps) = map server ps"
  by (induction ps arbitrary: i) simp_all

lemma name_turn_off_others [simp]: "map name (turn_off_others index i ps) = map name ps"
  by (induction ps arbitrary: i) simp_all

lemma nth_turn_off_others:
  "j < length ps \<Longrightarrow>
   turn_off_others index i ps ! j = (if i + j \<noteq> index then (ps ! j)\<lparr>enabled := False\<rparr> else ps ! j)"
proof (induction ps arbitrary: i j)
  case Nil
  then show ?case by simp
next
  case (Cons p ps)
  show ?case
  proof (cases j)
    case 0
    then show ?thesis by simp
  next
    case (Suc k)
    with Cons.prems have "k < length ps" by simp
    from Cons.IH [OF this, of "Suc i"] Suc show ?thesis by simp
  qed
qed

lemma length_toggled [simp]: "length (toggled index ps) = length ps"
  by (simp add: toggled_def Let_def)

lemma map_field_update:
  assumes "f y = f (xs ! k)"
  shows "map f (xs[k := y]) = map f xs"
proof (cases "k < length xs")
  case True
  with assms show ?thesis by (simp add: map_update list_update_same_conv)
next
  case False
  then have "xs[k := y] = xs" by (intro list_update_beyond) simp
  then show ?thesis by simp
qed

lemma server_toggled [simp]: "map server (toggled index ps) = map server ps"
  by (simp add: toggled_def Let_def map_field_update)

lemma name_toggled [simp]: "map name (toggled index ps) = map name ps"
  by (simp add: toggled_def Let_def map_field_update)

lemma nth_toggled:
  "j < length ps \<Longrightarrow>
   toggled index ps ! j =
     (ps ! j)\<lparr>enabled := (if j = index then \<not> enabled (ps ! j) else False)\<rparr>"
  by (simp add: toggled_def Let_def nth_list_update nth_turn_off_others)

lemma proxy_argument_toggled:
  "index < length ps \<Longrightarrow>
   proxy_argument index (toggled index ps) =
     (if enabled (ps ! index) then None else Some (server (ps ! index)))"
  by (simp add: proxy_argument_def nth_toggled)

subsection \<open>set_proxy\<close>

lemma set_proxy_WriteOk:
  "set_proxy WriteOk arg reg =
     (True, reg\<lparr>ProxyEnable := Some (if truthy arg then 1 else 0),
                ProxyServer := Some (if truthy arg then the arg else [])\<rparr>, [])"
  by (simp add: set_proxy_def)

lemma set_proxy_fails:
  "fault \<noteq> WriteOk \<Longrightarrow>
   fst (set_proxy fault arg reg) = False \<and> snd (snd (set_proxy fault arg reg)) = [ErrorSettingProxy]"
  by (cases fault) (simp_all add: set_proxy_def Let_def)

lemma set_proxy_nothing_written:
  "fault = OpenKeyFails \<or> fault = SetEnableFails \<Longrightarrow> fst (snd (set_proxy fault arg reg)) = reg"
  by (auto simp add: set_proxy_def Let_def)

subsection \<open>toggle_proxy, step by step\<close>

lemma toggle_proxy_in_range:
  assumes "index < length (proxies w)"
  shows "toggle_proxy fault sf readable index w =
     Inr (update_ui readable
           (w\<lparr>proxies := toggled index (proxies w),
              registry := fst (snd (set_proxy fault (proxy_argument index (toggled index (proxies w))) (registry w))),
              config_file := fst (save_proxies sf (profiles_json (toggled index (proxies w))) (config_file w)),
              diagnostics := diagnostics w
                 @ snd (snd (set_proxy fault (proxy_argument index (toggled index (proxies w))) (registry w)))
                 @ snd (save_proxies sf (profiles_json (toggled index (proxies w))) (config_file w)),
              set_proxy_calls := set_proxy_calls w @ [proxy_argument index (toggled index (proxies w))]\<rparr>))"
  using assms by (simp add: toggle_proxy_def Let_def split: prod.splits)

lemma toggle_proxy_out_of_range:
  "\<not> index < length (proxies w) \<Longrightarrow> toggle_proxy fault sf readable index w = Inl IndexError"
  by (simp add: toggle_proxy_def)



lemma nth_reconcile:
  "j < length ps \<Longrightarrow> reconcile cur ps ! j = (ps ! j)\<lparr>enabled := is_active cur (ps ! j)\<rparr>"
  by (simp add: reconcile_map)

lemma is_active_server:
  "map server ps = map server qs \<Longrightarrow> map (is_active cur) ps = map (is_active cur) qs"
proof -
  assume "map server ps = map server qs"
  then have "map ((\<lambda>s. truthy cur \<and> cur = Some s) \<circ> server) ps =
             map ((\<lambda>s. truthy cur \<and> cur = Some s) \<circ> server) qs"
    unfolding map_map [symmetric] by simp
  moreover have "is_active cur = (\<lambda>s. truthy cur \<and> cur = Some s) \<circ> server"
    by (rule ext) (simp add: is_active_def)
  ultimately show ?thesis by simp
qed


text \<open>
  Claim C1, as amended. When \<^verbatim>\<open>set_proxy\<close> fails, \<^verbatim>\<open>toggle_proxy\<close> with an index in range
  still returns normally (the source has no \<^verbatim>\<open>ActivationError\<close> and drops the boolean of
  \<^verbatim>\<open>set_proxy\<close>); the failure is printed; the list with the others off and the chosen
  flag flipped is still handed to \<^verbatim>\<open>save_proxies\<close>, which stores it when the save
  succeeds; and the flags in memory are recomputed from the registry as the failed write
  left it, untouched when the fault came before the first value was stored.
\<close>

theorem toggle_proxy_write_failure:
  assumes "index < length (proxies w)" and "fault \<noteq> WriteOk"
  shows "\<exists>w'. toggle_proxy fault sf readable index w = Inr w' \<and>
     fst (set_proxy fault (proxy_argument index (toggled index (proxies w))) (registry w)) = False \<and>
     ErrorSettingProxy \<in> set (diagnostics w') \<and>
     config_file w' = fst (save_proxies sf (profiles_json (toggled index (proxies w))) (config_file w)) \<and>
     (sf = SaveOk \<longrightarrow> config_file w' = Some (JsonText (profiles_json (toggled index (proxies w))))) \<and>
     map enabled (proxies w') = map (is_active (fst (get_current_proxy readable (registry w')))) (proxies w) \<and>
     (fault = OpenKeyFails \<or> fault = SetEnableFails \<longrightarrow> registry w' = registry w)"
proof -
  let ?ps = "toggled index (proxies w)"
  let ?arg = "proxy_argument index ?ps"
  note step = toggle_proxy_in_range [OF assms(1), of fault sf readable]
  obtain w' where w': "toggle_proxy fault sf readable index w = Inr w'"
    using step by simp
  have f: "fst (set_proxy fault ?arg (registry w)) = False"
    using set_proxy_fails [OF assms(2)] by simp
  have d: "ErrorSettingProxy \<in> set (diagnostics w')"
    using w' step set_proxy_fails [OF assms(2), of ?arg "registry w"]
    by (auto simp add: diagnostics_update_ui)
  have c: "config_file w' = fst (save_proxies sf (profiles_json ?ps) (config_file w))"
    using w' step by auto
  have c': "config_file w' = Some (JsonText (profiles_json ?ps))" if "sf = SaveOk"
    using c that by simp
  have "proxies w' = reconcile (fst (get_current_proxy readable (registry w'))) ?ps"
    using w' step by (auto simp add: proxies_update_ui)
  then have "map enabled (proxies w') = map (is_active (fst (get_current_proxy readable (registry w')))) ?ps"
    by (simp add: enabled_reconcile)
  also have "\<dots> = map (is_active (fst (get_current_proxy readable (registry w')))) (proxies w)"
    by (rule is_active_server) simp
  finally have e: "map enabled (proxies w') =
      map (is_active (fst (get_current_proxy readable (registry w')))) (proxies w)" .
  have r: "registry w' = registry w" if "fault = OpenKeyFails \<or> fault = SetEnableFails"
    using w' step set_proxy_nothing_written [OF that, of ?arg "registry w"] by auto
  from w' f d c c' e r show ?thesis by blast
qed


text \<open>
  The key cannot be opened on the first click: no exception, one line printed, the
  registry untouched, and a file that says the first profile is on.
\<close>

theorem toggle_proxy_write_failure_witness:
  "(0::nat) < length (proxies idle_world) \<and> OpenKeyFails \<noteq> WriteOk \<and>
   \<not> isl (toggle_proxy OpenKeyFails SaveOk True 0 idle_world) \<and>
   diagnostics (projr (toggle_proxy OpenKeyFails SaveOk True 0 idle_world)) = [ErrorSettingProxy] \<and>
   registry (projr (toggle_proxy OpenKeyFails SaveOk True 0 idle_world)) = registry idle_world \<and>
   config_file (projr (toggle_proxy OpenKeyFails SaveOk True 0 idle_world)) =
     Some (JsonText (profiles_json
       [\<lparr>name = ''Office Proxy'', server = ''http://proxy-example.corp.com:912'', enabled = True\<rparr>,
        \<lparr>name = ''VPN Proxy'', server = ''http://vpn-proxy.example.com:8080'', enabled = False\<rparr>]))"
proof -
  have h: "(0::nat) < length (proxies idle_world)"
    by (simp add: idle_world_def DEFAULT_PROXIES_def)
  have g: "OpenKeyFails \<noteq> WriteOk" by simp
  from toggle_proxy_write_failure [OF h g, of SaveOk True]
  obtain w' where w': "toggle_proxy OpenKeyFails SaveOk True 0 idle_world = Inr w'"
    and c: "config_file w' = Some (JsonText (profiles_json (toggled 0 (proxies idle_world))))"
    and r: "registry w' = registry idle_world"
    by blast
  have c': "config_file w' = Some (JsonText (profiles_json
       [\<lparr>name = ''Office Proxy'', server = ''http://proxy-example.corp.com:912'', enabled = True\<rparr>,
        \<lparr>name = ''VPN Proxy'', server = ''http://vpn-proxy.example.com:8080'', enabled = False\<rparr>]))"
    using c by (simp add: idle_world_def DEFAULT_PROXIES_def toggled_def)
  have d: "diagnostics w' = [ErrorSettingProxy]"
    using w' toggle_proxy_in_range [OF h, of OpenKeyFails SaveOk True]
    by (auto simp add: diagnostics_update_ui set_proxy_def get_current_proxy_def idle_world_def)
  from h c' r d show ?thesis unfolding w' by simp
qed

text \<open>
  Claim C1 as the specification states it fails. The office proxy is on; a click on the
  second profile stores both registry values and then fails in the notification, so
  \<^verbatim>\<open>set_proxy\<close> returns \<^verbatim>\<open>False\<close>. The call returns normally all the same, the flags
  are not those from before the call, and the list is written to the file.
\<close>

theorem toggle_proxy_no_rollback_counterexample:
  "fst (set_proxy NotifyFails (Some ''http://vpn-proxy.example.com:8080'') (registry office_world)) = False \<and>
   \<not> isl (toggle_proxy NotifyFails SaveOk True 1 office_world) \<and>
   map enabled (proxies office_world) = [True, False] \<and>
   map enabled (proxies (projr (toggle_proxy NotifyFails SaveOk True 1 office_world))) = [False, True] \<and>
   config_file office_world = None \<and>
   config_file (projr (toggle_proxy NotifyFails SaveOk True 1 office_world)) =
     Some (JsonText (profiles_json
       [\<lparr>name = ''Office Proxy'', server = ''http://proxy-example.corp.com:912'', enabled = False\<rparr>,
        \<lparr>name = ''VPN Proxy'', server = ''http://vpn-proxy.example.com:8080'', enabled = True\<rparr>]))"
  by (simp add: toggle_proxy_def toggled_def proxy_argument_def set_proxy_def update_ui_def Let_def
      get_current_proxy_def is_active_def office_world_def)

text \<open>
  Claim C3, as amended. Starting from a list in which the profile at \<open>index\<close> is off
  and has a non-empty server, two clicks on it in a row, with both registry writes and
  the registry read of the first click succeeding and nobody else touching the registry,
  leave every flag off; the second click calls \<^verbatim>\<open>set_proxy(None)\<close>, which stores
  \<^verbatim>\<open>ProxyEnable = 0\<close> and an empty \<^verbatim>\<open>ProxyServer\<close>.
\<close>

theorem toggle_proxy_twice:
  assumes "index < length (proxies w)"
    and "\<not> enabled (proxies w ! index)"
    and "server (proxies w ! index) \<noteq> []"
  shows "\<exists>w1 w2. toggle_proxy WriteOk sf1 True index w = Inr w1 \<and>
     toggle_proxy WriteOk sf2 readable2 index w1 = Inr w2 \<and>
     map enabled (proxies w2) = replicate (length (proxies w)) False \<and>
     set_proxy_calls w2 = set_proxy_calls w @ [Some (server (proxies w ! index)), None] \<and>
     registry w2 = (registry w)\<lparr>ProxyEnable := Some 0, ProxyServer := Some []\<rparr>"
proof -
  let ?s = "server (proxies w ! index)"
  let ?ps = "toggled index (proxies w)"
  note step1 = toggle_proxy_in_range [OF assms(1), of WriteOk sf1 True]
  obtain w1 where w1: "toggle_proxy WriteOk sf1 True index w = Inr w1"
    using step1 by simp
  have arg1: "proxy_argument index ?ps = Some ?s"
    using assms by (simp add: proxy_argument_toggled)
  have reg1: "registry w1 = (registry w)\<lparr>ProxyEnable := Some 1, ProxyServer := Some ?s\<rparr>"
    using w1 step1 assms(3) by (auto simp add: arg1 set_proxy_WriteOk)
  have cur1: "fst (get_current_proxy True (registry w1)) = Some ?s"
    unfolding reg1 by (simp add: get_current_proxy_def)
  have ps1: "proxies w1 = reconcile (Some ?s) ?ps"
    using w1 step1 cur1 by (auto simp add: proxies_update_ui)
  have calls1: "set_proxy_calls w1 = set_proxy_calls w @ [Some ?s]"
    using w1 step1 by (auto simp add: arg1)
  have len1: "index < length (proxies w1)"
    using assms(1) by (simp add: ps1)
  have on1: "enabled (proxies w1 ! index)"
    using assms(1,3) by (simp add: ps1 nth_reconcile nth_toggled is_active_def)
  let ?qs = "toggled index (proxies w1)"
  note step2 = toggle_proxy_in_range [OF len1, of WriteOk sf2 readable2]
  obtain w2 where w2: "toggle_proxy WriteOk sf2 readable2 index w1 = Inr w2"
    using step2 by simp
  have arg2: "proxy_argument index ?qs = None"
    using len1 on1 by (simp add: proxy_argument_toggled)
  have reg2: "registry w2 = (registry w)\<lparr>ProxyEnable := Some 0, ProxyServer := Some []\<rparr>"
    using w2 step2 by (auto simp add: arg2 set_proxy_WriteOk reg1)
  have cur2: "fst (get_current_proxy readable2 (registry w2)) = None"
    unfolding reg2 by (simp add: get_current_proxy_def)
  have "proxies w2 = reconcile (fst (get_current_proxy readable2 (registry w2))) ?qs"
    using w2 step2 by (auto simp add: proxies_update_ui)
  then have off2: "map enabled (proxies w2) = replicate (length (proxies w)) False"
    by (simp add: cur2 enabled_reconcile_falsy ps1)
  have calls2: "set_proxy_calls w2 = set_proxy_calls w @ [Some ?s, None]"
    using w2 step2 by (auto simp add: arg2 calls1)
  from w1 w2 off2 calls2 reg2 show ?thesis by blast
qed

theorem toggle_proxy_twice_witness:
  "(0::nat) < length (proxies idle_world) \<and> \<not> enabled (proxies idle_world ! 0) \<and>
   server (proxies idle_world ! 0) \<noteq> [] \<and>
   \<not> isl (toggle_proxy WriteOk SaveOk True 0 idle_world) \<and>
   \<not> isl (toggle_proxy WriteOk SaveOk True 0 (projr (toggle_proxy WriteOk SaveOk True 0 idle_world))) \<and>
   map enabled (proxies (projr (toggle_proxy WriteOk SaveOk True 0
      (projr (toggle_proxy WriteOk SaveOk True 0 idle_world))))) = [False, False] \<and>
   set_proxy_calls (projr (toggle_proxy WriteOk SaveOk True 0
      (projr (toggle_proxy WriteOk SaveOk True 0 idle_world)))) =
     [Some ''http://proxy-example.corp.com:912'', None]"
proof -
  have a: "(0::nat) < length (proxies idle_world)"
    by (simp add: idle_world_def DEFAULT_PROXIES_def)
  have b: "\<not> enabled (proxies idle_world ! 0)"
    by (simp add: idle_world_def DEFAULT_PROXIES_def)
  have c: "server (proxies idle_world ! 0) \<noteq> []"
    by (simp add: idle_world_def DEFAULT_PROXIES_def)
  from toggle_proxy_twice [OF a b c, of SaveOk SaveOk True]
  obtain w1 w2 where w1: "toggle_proxy WriteOk SaveOk True 0 idle_world = Inr w1"
    and w2: "toggle_proxy WriteOk SaveOk True 0 w1 = Inr w2"
    and off: "map enabled (proxies w2) = replicate (length (proxies idle_world)) False"
    and calls: "set_proxy_calls w2 =
       set_proxy_calls idle_world @ [Some (server (proxies idle_world ! 0)), None]"
    by blast
  have off': "map enabled (proxies w2) = [False, False]"
    using off by (simp add: idle_world_def DEFAULT_PROXIES_def)
  have calls': "set_proxy_calls w2 = [Some ''http://proxy-example.corp.com:912'', None]"
    using calls by (simp add: idle_world_def DEFAULT_PROXIES_def)
  from a b c off' calls' show ?thesis unfolding w1 sum.sel w2 by simp
qed

text \<open>
  Claim C3 as the specification states it, for every starting state, fails: when the
  profile is on to begin with, the first click switches the proxy off and the second one
  switches it on again.
\<close>

theorem toggle_proxy_twice_counterexample:
  "map enabled (proxies office_world) = [True, False] \<and>
   \<not> isl (toggle_proxy WriteOk SaveOk True 0 office_world) \<and>
   \<not> isl (toggle_proxy WriteOk SaveOk True 0 (projr (toggle_proxy WriteOk SaveOk True 0 office_world))) \<and>
   map enabled (proxies (projr (toggle_proxy WriteOk SaveOk True 0
      (projr (toggle_proxy WriteOk SaveOk True 0 office_world))))) = [True, False] \<and>
   set_proxy_calls (projr (toggle_proxy WriteOk SaveOk True 0
      (projr (toggle_proxy WriteOk SaveOk True 0 office_world)))) =
     [None, Some ''http://proxy-example.corp.com:912'']"
  by (simp add: toggle_proxy_def toggled_def proxy_argument_def set_proxy_def update_ui_def Let_def
      get_current_proxy_def is_active_def office_world_def)

text \<open>
  The two further conditions of the amended claim C3 are needed as well. When the read
  that ends the first click fails, the flag just set is cleared again and the second
  click switches the proxy on; and the argument of the second call is the empty string
  rather than \<^verbatim>\<open>None\<close> when the server of the profile is empty.
\<close>

lemma toggle_proxy_twice_unread:
  "map enabled (proxies (projr (toggle_proxy WriteOk SaveOk True 0
      (projr (toggle_proxy WriteOk SaveOk False 0 idle_world))))) = [True, False]"
  by (simp add: toggle_proxy_def toggled_def proxy_argument_def set_proxy_def update_ui_def Let_def
      get_current_proxy_def is_active_def idle_world_def DEFAULT_PROXIES_def)

lemma toggle_proxy_twice_blank:
  "set_proxy_calls (projr (toggle_proxy WriteOk SaveOk True 0
      (projr (toggle_proxy WriteOk SaveOk True 0 blank_world)))) = [Some [], Some []]"
  by (simp add: toggle_proxy_def toggled_def proxy_argument_def set_proxy_def update_ui_def Let_def
      get_current_proxy_def is_active_def blank_world_def)

section \<open>At most one profile on\<close>

lemma one_server_match:
  "distinct (map server ps) \<Longrightarrow> length (filter (\<lambda>p. server p = s) ps) \<le> 1"
proof (induction ps)
  case Nil
  then show ?case by simp
next
  case (Cons p ps)
  show ?case
  proof (cases "server p = s")
    case True
    with Cons.prems have "s \<notin> server ` set ps" by auto
    then have "filter (\<lambda>p. server p = s) ps = []" by (auto simp add: filter_empty_conv)
    with True show ?thesis by simp
  next
    case False
    with Cons show ?thesis by simp
  qed
qed

lemma reconcile_at_most_one:
  assumes "distinct (map server ps)"
  shows "length (filter enabled (reconcile cur ps)) \<le> 1"
proof -
  have "length (filter enabled (reconcile cur ps)) = length (filter (is_active cur) ps)"
    by (simp add: reconcile_map filter_map comp_def)
  also have "\<dots> \<le> 1"
  proof (cases cur)
    case None
    then show ?thesis by simp
  next
    case (Some s)
    have "filter (is_active (Some s)) ps = filter (\<lambda>p. s \<noteq> [] \<and> server p = s) ps"
      by (rule filter_cong) (auto simp add: is_active_def)
    also have "length \<dots> \<le> length (filter (\<lambda>p. server p = s) ps)"
      by (cases "s = []") simp_all
    also have "\<dots> \<le> 1" using assms by (rule one_server_match)
    finally show ?thesis using Some by simp
  qed
  finally show ?thesis .
qed

lemma perform_reconciled:
  assumes "perform a w = Inr w'"
  shows "\<exists>cur ps. proxies w' = reconcile cur ps \<and> map server ps = map server (proxies w)"
proof (cases a)
  case (Toggle fault sf readable index)
  with assms have t: "toggle_proxy fault sf readable index w = Inr w'" by simp
  then have i: "index < length (proxies w)"
    by (cases "index < length (proxies w)") (simp_all add: toggle_proxy_out_of_range)
  from t toggle_proxy_in_range [OF i, of fault sf readable]
  have "proxies w' = reconcile (fst (get_current_proxy readable (registry w'))) (toggled index (proxies w))"
    by (auto simp add: proxies_update_ui)
  moreover have "map server (toggled index (proxies w)) = map server (proxies w)" by simp
  ultimately show ?thesis by blast
next
  case (Refresh readable)
  with assms have "proxies w' = reconcile (fst (get_current_proxy readable (registry w))) (proxies w)"
    by (auto simp add: proxies_update_ui)
  then show ?thesis by blast
qed

lemma perform_servers:
  assumes "perform a w = Inr w'"
  shows "map server (proxies w') = map server (proxies w)"
  using perform_reconciled [OF assms] by auto

lemma perform_at_most_one:
  assumes "distinct (map server (proxies w))" and "perform a w = Inr w'"
  shows "length (filter enabled (proxies w')) \<le> 1"
proof -
  from perform_reconciled [OF assms(2)]
  obtain cur ps where p: "proxies w' = reconcile cur ps"
    and s: "map server ps = map server (proxies w)"
    by blast
  from assms(1) s have "distinct (map server ps)" by simp
  then show ?thesis unfolding p by (rule reconcile_at_most_one)
qed

text \<open>
  Claim C2, as amended. When no two profiles of the list have the same server, after
  every run of clicks and \<^verbatim>\<open>update_ui\<close> calls that raises no exception (so every index
  is in range), whatever faults the registry and the file show on the way, at most one
  profile is on.
\<close>

theorem run_at_most_one:
  assumes "distinct (map server (proxies w))" and "acts \<noteq> []" and "run acts w = Inr w'"
  shows "length (filter enabled (proxies w')) \<le> 1"
  using assms
proof (induction acts arbitrary: w)
  case Nil
  then show ?case by simp
next
  case (Cons a rest)
  from Cons.prems(3) obtain w1 where a: "perform a w = Inr w1" and r: "run rest w1 = Inr w'"
    by (auto split: sum.splits)
  show ?case
  proof (cases "rest = []")
    case True
    with r have "w' = w1" by simp
    with perform_at_most_one [OF Cons.prems(1) a] show ?thesis by simp
  next
    case False
    from Cons.prems(1) perform_servers [OF a] have "distinct (map server (proxies w1))" by simp
    from Cons.IH [OF this False r] show ?thesis .
  qed
qed

text \<open>A click on the first default profile, one on the second, and a refresh.\<close>

theorem run_at_most_one_witness:
  "distinct (map server (proxies idle_world)) \<and>
   [Toggle WriteOk SaveOk True 0, Toggle WriteOk SaveOk True 1, Refresh True] \<noteq> [] \<and>
   \<not> isl (run [Toggle WriteOk SaveOk True 0, Toggle WriteOk SaveOk True 1, Refresh True] idle_world) \<and>
   map enabled (proxies (projr
     (run [Toggle WriteOk SaveOk True 0, Toggle WriteOk SaveOk True 1, Refresh True] idle_world))) =
     [False, True] \<and>
   length (filter enabled (proxies (projr
     (run [Toggle WriteOk SaveOk True 0, Toggle WriteOk SaveOk True 1, Refresh True] idle_world)))) \<le> 1"
proof -
  let ?acts = "[Toggle WriteOk SaveOk True 0, Toggle WriteOk SaveOk True 1, Refresh True]"
  have d: "distinct (map server (proxies idle_world))"
    by (simp add: idle_world_def DEFAULT_PROXIES_def)
  have n: "?acts \<noteq> []" by simp
  have ok: "\<not> isl (run ?acts idle_world)"
    by (simp add: toggle_proxy_def toggled_def proxy_argument_def set_proxy_def update_ui_def
        Let_def get_current_proxy_def is_active_def idle_world_def DEFAULT_PROXIES_def)
  then obtain w' where w': "run ?acts idle_world = Inr w'"
    by (cases "run ?acts idle_world") simp_all
  have e: "map enabled (proxies (projr (run ?acts idle_world))) = [False, True]"
    by (simp add: toggle_proxy_def toggled_def proxy_argument_def set_proxy_def update_ui_def
        Let_def get_current_proxy_def is_active_def idle_world_def DEFAULT_PROXIES_def)
  from run_at_most_one [OF d n w'] have "length (filter enabled (proxies w')) \<le> 1" .
  with d n ok e show ?thesis unfolding w' by simp
qed

text \<open>
  Claim C2 as the specification states it, for every list, fails: when two profiles
  name the server the registry holds, \<^verbatim>\<open>update_ui\<close> turns both on, and so does a click
  on one of them.
\<close>

theorem update_ui_twin_counterexample:
  "map enabled (proxies (update_ui True twin_world)) = [True, True] \<and>
   \<not> isl (toggle_proxy WriteOk SaveOk True 0 twin_world) \<and>
   map enabled (proxies (projr (toggle_proxy WriteOk SaveOk True 0 twin_world))) = [True, True]"
  by (simp add: toggle_proxy_def toggled_def proxy_argument_def set_proxy_def update_ui_def
      Let_def get_current_proxy_def is_active_def twin_world_def)

section \<open>The configuration file\<close>

lemma profile_json_inj: "inj profile_json"
  by (rule injI) (simp add: profile_json_def)

lemma profiles_json_eq: "(profiles_json L' = profiles_json L) = (L' = L)"
  by (simp add: profiles_json_def inj_map_eq_map [OF profile_json_inj])

text \<open>
  Claim C5. After \<^verbatim>\<open>save_proxies\<close> has written a list of profiles without a fault,
  \<^verbatim>\<open>load_proxies\<close> on a readable file returns that list, prints nothing and leaves the
  file as it is: the value it returns is the dump of a list \<open>L'\<close> exactly when \<open>L'\<close> is
  the list that was saved.
\<close>

theorem save_then_load:
  "load_proxies True sf (fst (save_proxies SaveOk (profiles_json L) f)) =
     (profiles_json L, Some (JsonText (profiles_json L)), []) \<and>
   (fst (load_proxies True sf (fst (save_proxies SaveOk (profiles_json L) f))) = profiles_json L')
     = (L' = L)"
  by (auto simp add: profiles_json_eq)

lemma serverless_doc_no_profiles: "profiles_json L \<noteq> serverless_doc"
  by (cases L) (simp_all add: profiles_json_def profile_json_def serverless_doc_def)

text \<open>
  Claim C6, as amended. When the file exists and cannot be read, or its text does not
  parse as JSON, \<^verbatim>\<open>load_proxies\<close> raises nothing: it returns the built-in defaults,
  prints one line and leaves the file alone. When the text parses, it returns the value
  it parses to, whatever its shape, and prints nothing.
\<close>

theorem load_proxies_existing_file:
  "load_proxies readable sf (Some BadText) =
     (profiles_json DEFAULT_PROXIES, Some BadText, [ErrorLoadingConfig]) \<and>
   load_proxies False sf (Some c) =
     (profiles_json DEFAULT_PROXIES, Some c, [ErrorLoadingConfig]) \<and>
   load_proxies True sf (Some (JsonText v)) = (v, Some (JsonText v), [])"
  by simp

text \<open>
  Claim C6 as the specification states it, for every malformed content, fails: a file
  whose entry lacks the \<^verbatim>\<open>server\<close> field is handed back as it is, not replaced by the
  defaults, and nothing is printed.
\<close>

theorem load_proxies_wrong_shape_counterexample:
  "load_proxies True SaveOk (Some (JsonText serverless_doc)) =
     (serverless_doc, Some (JsonText serverless_doc), []) \<and>
   fst (load_proxies True SaveOk (Some (JsonText serverless_doc))) \<noteq> profiles_json DEFAULT_PROXIES \<and>
   snd (snd (load_proxies True SaveOk (Some (JsonText serverless_doc)))) = []"
  using serverless_doc_no_profiles [of DEFAULT_PROXIES] by simp

end
